theory Spec2Isabelle
  imports Complex_Main
begin

section \<open>Crop coefficient database and water-demand calculator\<close>

text \<open>
  The crop coefficient database (the part of \<^verbatim>\<open>services/weather-api.ts\<close> that starts at
  \<^verbatim>\<open>interface CropData\<close>; the tests import it as \<^verbatim>\<open>crop-database\<close>) holds a constant table
  of crops, with FAO-56 crop coefficients and growth-stage lengths, and a handful of pure
  functions over it.

  A TypeScript \<^verbatim>\<open>number\<close> is an IEEE 754 double. The functions are read twice. In the
  first reading a number is a \<^typ>\<open>real\<close> and the arithmetic is exact: this is the
  interpolation model the functions implement, and the expressions below are the source's
  own. The one place where a JavaScript number leaves the reals inside these functions is
  a division by zero, which yields \<^verbatim>\<open>NaN\<close> or an infinity and raises nothing; \<open>js_div\<close>
  makes that case explicit, with \<open>None\<close> standing for a non-finite result. Every non-finite
  value stays non-finite under the multiplications and divisions by finite numbers that
  follow it in the source, so \<open>None\<close> is propagated. In the second reading
  (\<open>fl_getKcForDay\<close>, further down) every arithmetic result is rounded as the machine
  rounds it; it is used where a property turns on the last bit of a result.
\<close>

subsection \<open>Data model\<close>

record GrowthStages =
  initial :: real
  development :: real
  midSeason :: real
  lateSeason :: real

text \<open>
  \<^verbatim>\<open>interface CropData\<close>. The field \<^verbatim>\<open>id\<close> is called \<open>crop_id\<close> here, \<open>id\<close> being
  the identity function of HOL. A JavaScript string is a sequence of UTF-16 code units;
  every code unit of the table is below 256 and is one \<^typ>\<open>char\<close>.
\<close>

record CropData =
  crop_id :: string
  name :: string
  namePortuguese :: string
  category :: string
  description :: string
  kcInitial :: real
  kcMid :: real
  kcEnd :: real
  maxHeight :: real
  growthStages :: GrowthStages

text \<open>The anonymous result type of \<^verbatim>\<open>calculateSeasonalWaterRequirement\<close>.\<close>

record SeasonalWaterRequirement =
  totalDays :: real
  averageKc :: "real option"
  totalWaterMm :: "real option"
  dailyAverageWaterMm :: "real option"

subsection \<open>Arithmetic\<close>

definition js_div :: "real \<Rightarrow> real \<Rightarrow> real option" where
  "js_div a b = (if b = 0 then None else Some (a / b))"

subsection \<open>Categories\<close>

text \<open>
  \<^verbatim>\<open>CROP_CATEGORIES\<close> is an object literal with eight string-keyed properties. The order
  of its properties is the order of the literal, so it is an association list.
\<close>

definition CROP_CATEGORIES :: "(string \<times> string) list" where
  "CROP_CATEGORIES =
    [(''GRAINS'', ''Grains & Cereals''),
     (''LEGUMES'', ''Legumes & Pulses''),
     (''FIBER'', ''Fiber Crops''),
     (''SUGAR'', ''Sugar Crops''),
     (''BEVERAGES'', ''Beverage Crops''),
     (''FRUITS'', ''Fruits''),
     (''VEGETABLES'', ''Vegetables''),
     (''OILSEEDS'', ''Oilseeds'')]"

text \<open>
  Property access \<^verbatim>\<open>CROP_CATEGORIES.KEY\<close>. Every key the table below reads is a
  property of the object; a missing one would be \<^verbatim>\<open>undefined\<close>, which no string equals
  and which is not a \<^verbatim>\<open>string\<close>, so the table would not type-check.
\<close>

definition category_of :: "string \<Rightarrow> string" where
  "category_of key = (case map_of CROP_CATEGORIES key of Some v \<Rightarrow> v | None \<Rightarrow> [])"

text \<open>\<^verbatim>\<open>Object.values\<close>: the property values in property order.\<close>

definition object_values :: "('k \<times> 'v) list \<Rightarrow> 'v list" where
  "object_values obj = map snd obj"

definition getAllCategories :: "string list" where
  "getAllCategories = object_values CROP_CATEGORIES"

subsection \<open>The crop table\<close>

text \<open>
  \<^verbatim>\<open>BRAZILIAN_CROPS\<close> is an array literal of eighteen object literals. Each entry is
  named here after its \<^verbatim>\<open>id\<close>; the array is the list of the entries in source order.
\<close>

definition corn :: CropData where
  "corn =
    \<lparr>crop_id = ''corn'', name = ''Corn (Maize)'',
     namePortuguese = ''Milho'',
     category = category_of ''GRAINS'',
     description = ''Field corn for grain production'',
     kcInitial = 0.3, kcMid = 1.2, kcEnd = 0.35, maxHeight = 2.0,
     growthStages = \<lparr>initial = 20, development = 35, midSeason = 40, lateSeason = 30\<rparr>\<rparr>"

definition rice :: CropData where
  "rice =
    \<lparr>crop_id = ''rice'', name = ''Rice'',
     namePortuguese = ''Arroz'',
     category = category_of ''GRAINS'',
     description = ''Paddy rice cultivation'',
     kcInitial = 1.05, kcMid = 1.2, kcEnd = 0.9, maxHeight = 1.0,
     growthStages = \<lparr>initial = 30, development = 30, midSeason = 60, lateSeason = 30\<rparr>\<rparr>"

definition wheat :: CropData where
  "wheat =
    \<lparr>crop_id = ''wheat'', name = ''Wheat'',
     namePortuguese = ''Trigo'',
     category = category_of ''GRAINS'',
     description = ''Spring wheat for grain'',
     kcInitial = 0.3, kcMid = 1.15, kcEnd = 0.25, maxHeight = 1.0,
     growthStages = \<lparr>initial = 15, development = 30, midSeason = 65, lateSeason = 40\<rparr>\<rparr>"

definition sorghum :: CropData where
  "sorghum =
    \<lparr>crop_id = ''sorghum'', name = ''Sorghum'',
     namePortuguese = ''Sorgo'',
     category = category_of ''GRAINS'',
     description = ''Grain sorghum'',
     kcInitial = 0.3, kcMid = 1.0, kcEnd = 0.55, maxHeight = 1.2,
     growthStages = \<lparr>initial = 20, development = 35, midSeason = 40, lateSeason = 30\<rparr>\<rparr>"

definition soybeans :: CropData where
  "soybeans =
    \<lparr>crop_id = ''soybeans'', name = ''Soybeans'',
     namePortuguese = ''Soja'',
     category = category_of ''OILSEEDS'',
     description = ''Most important Brazilian oilseed crop'',
     kcInitial = 0.4, kcMid = 1.15, kcEnd = 0.5, maxHeight = 0.8,
     growthStages = \<lparr>initial = 15, development = 25, midSeason = 50, lateSeason = 30\<rparr>\<rparr>"

definition beans_dry :: CropData where
  "beans_dry =
    \<lparr>crop_id = ''beans-dry'', name = ''Beans (Dry)'',
     namePortuguese = ''Feij'' @ [CHR 0xE3] @ ''o'',
     category = category_of ''LEGUMES'',
     description = ''Common dry beans'',
     kcInitial = 0.4, kcMid = 1.15, kcEnd = 0.35, maxHeight = 0.4,
     growthStages = \<lparr>initial = 20, development = 30, midSeason = 40, lateSeason = 20\<rparr>\<rparr>"

definition peanuts :: CropData where
  "peanuts =
    \<lparr>crop_id = ''peanuts'', name = ''Peanuts (Groundnuts)'',
     namePortuguese = ''Amendoim'',
     category = category_of ''OILSEEDS'',
     description = ''Groundnut cultivation'',
     kcInitial = 0.4, kcMid = 1.15, kcEnd = 0.6, maxHeight = 0.4,
     growthStages = \<lparr>initial = 25, development = 35, midSeason = 45, lateSeason = 25\<rparr>\<rparr>"

definition cotton :: CropData where
  "cotton =
    \<lparr>crop_id = ''cotton'', name = ''Cotton'',
     namePortuguese = ''Algod'' @ [CHR 0xE3] @ ''o'',
     category = category_of ''FIBER'',
     description = ''Cotton for fiber production'',
     kcInitial = 0.35, kcMid = 1.15, kcEnd = 0.5, maxHeight = 1.5,
     growthStages = \<lparr>initial = 30, development = 50, midSeason = 60, lateSeason = 55\<rparr>\<rparr>"

definition sugarcane_virgin :: CropData where
  "sugarcane_virgin =
    \<lparr>crop_id = ''sugarcane-virgin'', name = ''Sugarcane (Virgin)'',
     namePortuguese = ''Cana-de-a'' @ [CHR 0xE7] @ [CHR 0xFA] @ ''car (Virgem)'',
     category = category_of ''SUGAR'',
     description = ''First year sugarcane planting'',
     kcInitial = 0.4, kcMid = 1.25, kcEnd = 0.75, maxHeight = 3.0,
     growthStages = \<lparr>initial = 35, development = 60, midSeason = 190, lateSeason = 120\<rparr>\<rparr>"

definition sugarcane_ratoon :: CropData where
  "sugarcane_ratoon =
    \<lparr>crop_id = ''sugarcane-ratoon'', name = ''Sugarcane (Ratoon)'',
     namePortuguese = ''Cana-de-a'' @ [CHR 0xE7] @ [CHR 0xFA] @ ''car (Soca)'',
     category = category_of ''SUGAR'',
     description = ''Regrowth sugarcane after harvest'',
     kcInitial = 0.4, kcMid = 1.25, kcEnd = 0.75, maxHeight = 3.0,
     growthStages = \<lparr>initial = 25, development = 35, midSeason = 180, lateSeason = 150\<rparr>\<rparr>"

definition coffee :: CropData where
  "coffee =
    \<lparr>crop_id = ''coffee'', name = ''Coffee'',
     namePortuguese = ''Caf'' @ [CHR 0xE9],
     category = category_of ''BEVERAGES'',
     description = ''Coffee plantation (bare ground)'',
     kcInitial = 0.9, kcMid = 0.95, kcEnd = 0.95, maxHeight = 3.0,
     growthStages = \<lparr>initial = 60, development = 90, midSeason = 120, lateSeason = 95\<rparr>\<rparr>"

definition banana :: CropData where
  "banana =
    \<lparr>crop_id = ''banana'', name = ''Banana'',
     namePortuguese = ''Banana'',
     category = category_of ''FRUITS'',
     description = ''Banana plantation (1st year)'',
     kcInitial = 0.5, kcMid = 1.1, kcEnd = 1.0, maxHeight = 4.0,
     growthStages = \<lparr>initial = 120, development = 90, midSeason = 120, lateSeason = 60\<rparr>\<rparr>"

definition citrus :: CropData where
  "citrus =
    \<lparr>crop_id = ''citrus'', name = ''Citrus (Orange)'',
     namePortuguese = ''Laranja'',
     category = category_of ''FRUITS'',
     description = ''Orange trees with 70% canopy'',
     kcInitial = 0.7, kcMid = 0.65, kcEnd = 0.7, maxHeight = 4.0,
     growthStages = \<lparr>initial = 60, development = 90, midSeason = 120, lateSeason = 95\<rparr>\<rparr>"

definition mango :: CropData where
  "mango =
    \<lparr>crop_id = ''mango'', name = ''Mango'',
     namePortuguese = ''Manga'',
     category = category_of ''FRUITS'',
     description = ''Mango orchard'',
     kcInitial = 0.75, kcMid = 0.8, kcEnd = 0.75, maxHeight = 5.0,
     growthStages = \<lparr>initial = 90, development = 90, midSeason = 120, lateSeason = 60\<rparr>\<rparr>"

definition tomato :: CropData where
  "tomato =
    \<lparr>crop_id = ''tomato'', name = ''Tomato'',
     namePortuguese = ''Tomate'',
     category = category_of ''VEGETABLES'',
     description = ''Fresh market tomato'',
     kcInitial = 0.6, kcMid = 1.15, kcEnd = 0.7, maxHeight = 0.6,
     growthStages = \<lparr>initial = 30, development = 40, midSeason = 50, lateSeason = 30\<rparr>\<rparr>"

definition potato :: CropData where
  "potato =
    \<lparr>crop_id = ''potato'', name = ''Potato'',
     namePortuguese = ''Batata'',
     category = category_of ''VEGETABLES'',
     description = ''Potato cultivation'',
     kcInitial = 0.5, kcMid = 1.15, kcEnd = 0.75, maxHeight = 0.6,
     growthStages = \<lparr>initial = 25, development = 30, midSeason = 45, lateSeason = 30\<rparr>\<rparr>"

definition onion_dry :: CropData where
  "onion_dry =
    \<lparr>crop_id = ''onion-dry'', name = ''Onion (Dry)'',
     namePortuguese = ''Cebola'',
     category = category_of ''VEGETABLES'',
     description = ''Dry bulb onion'',
     kcInitial = 0.7, kcMid = 1.05, kcEnd = 0.75, maxHeight = 0.4,
     growthStages = \<lparr>initial = 15, development = 25, midSeason = 70, lateSeason = 40\<rparr>\<rparr>"

definition cassava :: CropData where
  "cassava =
    \<lparr>crop_id = ''cassava'', name = ''Cassava (Manioc)'',
     namePortuguese = ''Mandioca'',
     category = category_of ''VEGETABLES'',
     description = ''Cassava root crop (1st year)'',
     kcInitial = 0.3, kcMid = 0.8, kcEnd = 0.3, maxHeight = 1.0,
     growthStages = \<lparr>initial = 20, development = 40, midSeason = 90, lateSeason = 60\<rparr>\<rparr>"

definition BRAZILIAN_CROPS :: "CropData list" where
  "BRAZILIAN_CROPS =
    [corn, rice, wheat, sorghum, soybeans, beans_dry, peanuts, cotton, sugarcane_virgin,
     sugarcane_ratoon, coffee, banana, citrus, mango, tomato, potato, onion_dry, cassava]"

text \<open>
  \<^verbatim>\<open>Array.prototype.find\<close> returns the first element the predicate accepts, or
  \<^verbatim>\<open>undefined\<close> (here \<open>None\<close>) when there is none; \<^verbatim>\<open>===\<close> on two strings is
  equality of their code units. Neither \<^verbatim>\<open>find\<close> nor \<^verbatim>\<open>filter\<close> changes the array.
\<close>

definition getCropById :: "string \<Rightarrow> CropData option" where
  "getCropById i = find (\<lambda>crop. crop_id crop = i) BRAZILIAN_CROPS"

definition getCropsByCategory :: "string \<Rightarrow> CropData list" where
  "getCropsByCategory c = filter (\<lambda>crop. category crop = c) BRAZILIAN_CROPS"

subsection \<open>Calculator\<close>

text \<open>
  The locals \<^verbatim>\<open>initial\<close>, \<^verbatim>\<open>development\<close>, \<^verbatim>\<open>midSeason\<close>, \<^verbatim>\<open>lateSeason\<close> and
  \<^verbatim>\<open>totalDays\<close> of the two functions below are written \<open>ini\<close>, \<open>dev\<close>, \<open>mid\<close>, \<open>late\<close> and
  \<open>total\<close>, and the locals \<^verbatim>\<open>totalWaterMm\<close> and \<^verbatim>\<open>dailyAverageWaterMm\<close> are written
  \<open>totalWater\<close> and \<open>dailyAverageWater\<close>: the source's names are the field selectors of
  the records. The branches and their order are the source's.
\<close>

definition calculateETc :: "real \<Rightarrow> real \<Rightarrow> real" where
  "calculateETc et0 kc = et0 * kc"

definition getKcForDay :: "CropData \<Rightarrow> real \<Rightarrow> real option" where
  "getKcForDay crop dayOfSeason =
    (let ini = initial (growthStages crop);
         dev = development (growthStages crop);
         mid = midSeason (growthStages crop);
         late = lateSeason (growthStages crop);
         total = ini + dev + mid + late
     in
       if dayOfSeason < 0 \<or> dayOfSeason > total then Some (kcEnd crop)
       else if dayOfSeason \<le> ini then Some (kcInitial crop)
       else if dayOfSeason \<le> ini + dev then
         (let daysIntoStage = dayOfSeason - ini
          in map_option (\<lambda>progress. kcInitial crop + progress * (kcMid crop - kcInitial crop))
               (js_div daysIntoStage dev))
       else if dayOfSeason \<le> ini + dev + mid then Some (kcMid crop)
       else
         (let daysIntoLateSeason = dayOfSeason - (ini + dev + mid)
          in map_option (\<lambda>progress. kcMid crop + progress * (kcEnd crop - kcMid crop))
               (js_div daysIntoLateSeason late)))"

definition calculateSeasonalWaterRequirement :: "CropData \<Rightarrow> real \<Rightarrow> SeasonalWaterRequirement" where
  "calculateSeasonalWaterRequirement crop averageET0 =
    (let ini = initial (growthStages crop);
         dev = development (growthStages crop);
         mid = midSeason (growthStages crop);
         late = lateSeason (growthStages crop);
         total = ini + dev + mid + late;
         avgKcInitial = kcInitial crop;
         avgKcDevelopment = (kcInitial crop + kcMid crop) / 2;
         avgKcMid = kcMid crop;
         avgKcLate = (kcMid crop + kcEnd crop) / 2;
         weightedKc =
           js_div (avgKcInitial * ini + avgKcDevelopment * dev + avgKcMid * mid + avgKcLate * late)
             total;
         totalWater = map_option (\<lambda>w. w * averageET0 * total) weightedKc;
         dailyAverageWater = Option.bind totalWater (\<lambda>t. js_div t total)
     in \<lparr>totalDays = total, averageKc = weightedKc, totalWaterMm = totalWater,
         dailyAverageWaterMm = dailyAverageWater\<rparr>)"

subsection \<open>Vocabulary of the properties\<close>

definition stagesPositive :: "CropData \<Rightarrow> bool" where
  "stagesPositive crop \<longleftrightarrow>
     0 < initial (growthStages crop) \<and> 0 < development (growthStages crop) \<and>
     0 < midSeason (growthStages crop) \<and> 0 < lateSeason (growthStages crop)"

definition seasonLength :: "CropData \<Rightarrow> real" where
  "seasonLength crop =
     initial (growthStages crop) + development (growthStages crop) +
     midSeason (growthStages crop) + lateSeason (growthStages crop)"

text \<open>
  The reference curve, as the specification words it: five cases, each with both of its
  bounds, over the cumulative boundaries \<open>b1\<close>, \<open>b2\<close>, \<open>b3\<close> and \<open>totalDays\<close>.
  \<open>kcReference crop day k\<close> says that \<open>k\<close> is the value the specification gives at \<open>day\<close>.
\<close>

definition kcReference :: "CropData \<Rightarrow> real \<Rightarrow> real \<Rightarrow> bool" where
  "kcReference crop day k =
    (let b1 = initial (growthStages crop);
         b2 = b1 + development (growthStages crop);
         b3 = b2 + midSeason (growthStages crop);
         b4 = b3 + lateSeason (growthStages crop)
     in
       ((day < 0 \<or> day > b4) \<longrightarrow> k = kcEnd crop) \<and>
       ((0 \<le> day \<and> day \<le> b1) \<longrightarrow> k = kcInitial crop) \<and>
       ((b1 < day \<and> day \<le> b2) \<longrightarrow>
          k = kcInitial crop +
              ((day - b1) / development (growthStages crop)) * (kcMid crop - kcInitial crop)) \<and>
       ((b2 < day \<and> day \<le> b3) \<longrightarrow> k = kcMid crop) \<and>
       ((b3 < day \<and> day \<le> b4) \<longrightarrow>
          k = kcMid crop +
              ((day - b3) / lateSeason (growthStages crop)) * (kcEnd crop - kcMid crop)))"


text \<open>
  The curve as a function of the day. \<open>getKcForDay\<close> returns a number on every input
  (lemma \<open>getKcForDay_total\<close> below), so the \<open>None\<close> case is never taken.
\<close>

definition kcCurve :: "CropData \<Rightarrow> real \<Rightarrow> real" where
  "kcCurve crop t = (case getKcForDay crop t of Some k \<Rightarrow> k | None \<Rightarrow> 0)"

text \<open>
  The integral of the curve over the season is stated in two ways, neither of which
  needs more than limits and derivatives. \<open>riemannSum f b n\<close> is the left Riemann sum of
  \<open>f\<close> over \<open>[0, b]\<close> cut into \<open>n\<close> equal parts. \<open>kcAntiderivative crop F\<close> says that the
  derivative of \<open>F\<close> is the curve at every day of the season (one-sided at the two ends):
  for such an \<open>F\<close> the integral is \<open>F totalDays - F 0\<close>.
\<close>

definition riemannSum :: "(real \<Rightarrow> real) \<Rightarrow> real \<Rightarrow> nat \<Rightarrow> real" where
  "riemannSum f b n = (\<Sum>i<n. f (b * real i / real n) * (b / real n))"

definition kcAntiderivative :: "CropData \<Rightarrow> (real \<Rightarrow> real) \<Rightarrow> bool" where
  "kcAntiderivative crop F \<longleftrightarrow>
     (\<forall>t \<in> {0 .. seasonLength crop}.
        \<exists>k. getKcForDay crop t = Some k \<and>
            (F has_real_derivative k) (at t within {0 .. seasonLength crop}))"

text \<open>
  Tools of the proofs: the positive part \<open>ramp\<close>; the curve written with it, \<open>kcRamps\<close>,
  which agrees with \<open>getKcForDay\<close> on the season; a primitive \<open>kcPrimitive\<close> of \<open>kcRamps\<close>;
  and a Lipschitz constant \<open>kcSlope\<close> of \<open>kcRamps\<close>.
\<close>

definition ramp :: "real \<Rightarrow> real" where
  "ramp x = max 0 x"

definition kcRamps :: "CropData \<Rightarrow> real \<Rightarrow> real" where
  "kcRamps crop t =
     kcInitial crop
        + (kcMid crop - kcInitial crop) / (2 * development (growthStages crop))
            * (2 * ramp (t - initial (growthStages crop))
               - 2 * ramp (t - (initial (growthStages crop) + development (growthStages crop))))
        + (kcEnd crop - kcMid crop) / (2 * lateSeason (growthStages crop))
            * (2 * ramp (t - (initial (growthStages crop) + development (growthStages crop)
                 + midSeason (growthStages crop))))"

definition kcPrimitive :: "CropData \<Rightarrow> real \<Rightarrow> real" where
  "kcPrimitive crop t =
    (let b1 = initial (growthStages crop);
         b2 = b1 + development (growthStages crop);
         b3 = b2 + midSeason (growthStages crop)
     in kcInitial crop * t
        + (kcMid crop - kcInitial crop) / (2 * development (growthStages crop))
            * ((ramp (t - b1))\<^sup>2 - (ramp (t - b2))\<^sup>2)
        + (kcEnd crop - kcMid crop) / (2 * lateSeason (growthStages crop))
            * (ramp (t - b3))\<^sup>2)"

definition kcSlope :: "CropData \<Rightarrow> real" where
  "kcSlope crop =
     4 * \<bar>(kcMid crop - kcInitial crop) / (2 * development (growthStages crop))\<bar>
     + 2 * \<bar>(kcEnd crop - kcMid crop) / (2 * lateSeason (growthStages crop))\<bar>"

subsection \<open>The arithmetic of doubles\<close>

text \<open>
  \<open>fl_round\<close> is the rounding of IEEE 754 binary64: to the nearest number with 53
  significant bits, a tie going to the one whose last bit is even; below \<open>2 powr (-1022)\<close>
  the spacing stays \<open>2 powr (-1074)\<close> (subnormal numbers). \<open>fl\<close> is the result of an
  operation whose exact value is \<open>x\<close>: the rounded value, or \<open>None\<close> when that is beyond
  the largest double (the machine gives an infinity). Addition, subtraction,
  multiplication and division each round their exact result once; comparisons are exact.
\<close>

definition round_half_even :: "real \<Rightarrow> int" where
  "round_half_even y =
     (let f = \<lfloor>y\<rfloor>; r = y - of_int f
      in if r < 1 / 2 then f else if 1 / 2 < r then f + 1 else if even f then f else f + 1)"

definition fl_quantum :: "real \<Rightarrow> int" where
  "fl_quantum x = max (\<lfloor>log 2 \<bar>x\<bar>\<rfloor> - 52) (- 1074)"

definition fl_round :: "real \<Rightarrow> real" where
  "fl_round x =
     (if x = 0 then 0
      else of_int (round_half_even (x / 2 powr of_int (fl_quantum x))) * 2 powr of_int (fl_quantum x))"

definition max_double :: real where
  "max_double = (2 ^ 53 - 1) * 2 ^ 971"

definition fl :: "real \<Rightarrow> real option" where
  "fl x = (let r = fl_round x in if \<bar>r\<bar> \<le> max_double then Some r else None)"

definition fl_add :: "real \<Rightarrow> real \<Rightarrow> real option" where
  "fl_add a b = fl (a + b)"

definition fl_sub :: "real \<Rightarrow> real \<Rightarrow> real option" where
  "fl_sub a b = fl (a - b)"

definition fl_mul :: "real \<Rightarrow> real \<Rightarrow> real option" where
  "fl_mul a b = fl (a * b)"

definition fl_div :: "real \<Rightarrow> real \<Rightarrow> real option" where
  "fl_div a b = (if b = 0 then None else fl (a / b))"

text \<open>
  A decimal literal of the source denotes the double nearest to it: \<open>as_doubles\<close> is a
  crop record as the machine holds it.
\<close>

definition as_doubles :: "CropData \<Rightarrow> CropData" where
  "as_doubles crop =
     crop\<lparr>kcInitial := fl_round (kcInitial crop), kcMid := fl_round (kcMid crop),
          kcEnd := fl_round (kcEnd crop), maxHeight := fl_round (maxHeight crop),
          growthStages :=
            \<lparr>initial = fl_round (initial (growthStages crop)),
             development = fl_round (development (growthStages crop)),
             midSeason = fl_round (midSeason (growthStages crop)),
             lateSeason = fl_round (lateSeason (growthStages crop))\<rparr>\<rparr>"

text \<open>
  \<^verbatim>\<open>getKcForDay\<close> on doubles: the branches of the source in their order, every
  operation rounded where the source performs it. The sums \<^verbatim>\<open>initial + development\<close> and
  \<^verbatim>\<open>initial + development + midSeason\<close>, which the source writes out again in its guards,
  are the same doubles each time and are named \<open>b2\<close> and \<open>b3\<close>. The result is \<open>None\<close> when
  some intermediate result is not a finite number; nothing is said of the code then.
\<close>

definition fl_getKcForDay :: "CropData \<Rightarrow> real \<Rightarrow> real option" where
  "fl_getKcForDay crop dayOfSeason =
    (let ini = initial (growthStages crop);
         dev = development (growthStages crop);
         mid = midSeason (growthStages crop);
         late = lateSeason (growthStages crop)
     in
       Option.bind (fl_add ini dev) (\<lambda>b2.
       Option.bind (fl_add b2 mid) (\<lambda>b3.
       Option.bind (fl_add b3 late) (\<lambda>total.
         if dayOfSeason < 0 \<or> dayOfSeason > total then Some (kcEnd crop)
         else if dayOfSeason \<le> ini then Some (kcInitial crop)
         else if dayOfSeason \<le> b2 then
           Option.bind (fl_sub dayOfSeason ini) (\<lambda>daysIntoStage.
           Option.bind (fl_div daysIntoStage dev) (\<lambda>progress.
           Option.bind (fl_sub (kcMid crop) (kcInitial crop)) (\<lambda>rise.
           Option.bind (fl_mul progress rise) (\<lambda>gain.
             fl_add (kcInitial crop) gain))))
         else if dayOfSeason \<le> b3 then Some (kcMid crop)
         else
           Option.bind (fl_sub dayOfSeason b3) (\<lambda>daysIntoLateSeason.
           Option.bind (fl_div daysIntoLateSeason late) (\<lambda>progress.
           Option.bind (fl_sub (kcEnd crop) (kcMid crop)) (\<lambda>rise.
           Option.bind (fl_mul progress rise) (\<lambda>gain.
             fl_add (kcMid crop) gain))))))))"

text \<open>
  The reference curve in the arithmetic of doubles. \<open>fl_interpolate a b day start len\<close> is
  \<open>a + ((day - start) / len) * (b - a)\<close> with each of its five operations rounded.
  \<open>exactBoundaries\<close> says that the three boundary sums are computed without rounding, as
  they are for day counts that are integers below \<open>2 ^ 53\<close>; the boundaries of the code are
  then \<open>b1\<close>, \<open>b2\<close>, \<open>b3\<close> and \<open>totalDays\<close> themselves. \<open>fl_kcReference crop day r\<close> says that
  \<open>r\<close> is what the five cases of the specification give at \<open>day\<close> in that arithmetic.
\<close>

definition fl_interpolate :: "real \<Rightarrow> real \<Rightarrow> real \<Rightarrow> real \<Rightarrow> real \<Rightarrow> real option" where
  "fl_interpolate a b day start len =
     Option.bind (fl_sub day start) (\<lambda>x.
     Option.bind (fl_div x len) (\<lambda>p.
     Option.bind (fl_sub b a) (\<lambda>rise.
     Option.bind (fl_mul p rise) (\<lambda>gain.
       fl_add a gain))))"

definition exactBoundaries :: "CropData \<Rightarrow> bool" where
  "exactBoundaries crop \<longleftrightarrow>
     (let b1 = initial (growthStages crop);
          b2 = b1 + development (growthStages crop);
          b3 = b2 + midSeason (growthStages crop);
          b4 = b3 + lateSeason (growthStages crop)
      in fl_add b1 (development (growthStages crop)) = Some b2 \<and>
         fl_add b2 (midSeason (growthStages crop)) = Some b3 \<and>
         fl_add b3 (lateSeason (growthStages crop)) = Some b4)"

definition fl_kcReference :: "CropData \<Rightarrow> real \<Rightarrow> real option \<Rightarrow> bool" where
  "fl_kcReference crop day r =
    (let b1 = initial (growthStages crop);
         b2 = b1 + development (growthStages crop);
         b3 = b2 + midSeason (growthStages crop);
         b4 = b3 + lateSeason (growthStages crop)
     in
       ((day < 0 \<or> day > b4) \<longrightarrow> r = Some (kcEnd crop)) \<and>
       ((0 \<le> day \<and> day \<le> b1) \<longrightarrow> r = Some (kcInitial crop)) \<and>
       ((b1 < day \<and> day \<le> b2) \<longrightarrow>
          r = fl_interpolate (kcInitial crop) (kcMid crop) day b1
                (development (growthStages crop))) \<and>
       ((b2 < day \<and> day \<le> b3) \<longrightarrow> r = Some (kcMid crop)) \<and>
       ((b3 < day \<and> day \<le> b4) \<longrightarrow>
          r = fl_interpolate (kcMid crop) (kcEnd crop) day b3
                (lateSeason (growthStages crop))))"


subsection \<open>The table in the store\<close>










section \<open>Properties\<close>

subsection \<open>The running example\<close>

lemma soybeans_fields:
  "initial (growthStages soybeans) = 15" "development (growthStages soybeans) = 25"
  "midSeason (growthStages soybeans) = 50" "lateSeason (growthStages soybeans) = 30"
  "kcInitial soybeans = 0.4" "kcMid soybeans = 1.15" "kcEnd soybeans = 0.5"
  "crop_id soybeans = ''soybeans''"
  by (simp_all add: soybeans_def)

lemma stagesPositive_soybeans: "stagesPositive soybeans"
  by (simp add: stagesPositive_def soybeans_fields)

lemma seasonLength_soybeans: "seasonLength soybeans = 120"
  by (simp add: seasonLength_def soybeans_fields)

lemma soybeans_in_table: "soybeans \<in> set BRAZILIAN_CROPS"
  by (simp add: BRAZILIAN_CROPS_def)

lemma citrus_fields:
  "initial (growthStages citrus) = 60" "development (growthStages citrus) = 90"
  "midSeason (growthStages citrus) = 120" "lateSeason (growthStages citrus) = 95"
  "kcInitial citrus = 0.7" "kcMid citrus = 0.65" "kcEnd citrus = 0.7"
  by (simp_all add: citrus_def)

lemma stagesPositive_citrus: "stagesPositive citrus"
  by (simp add: stagesPositive_def citrus_fields)

lemma seasonLength_citrus: "seasonLength citrus = 365"
  by (simp add: seasonLength_def citrus_fields)

subsection \<open>The product\<close>

text \<open>
  C4. \<open>calculateETc\<close> is the product of its arguments for all real inputs, with no
  validation: a zero argument gives zero, and \<open>calculateETc 5.0 1.15 = 5.75\<close>.
\<close>

theorem calculateETc_product:
  "calculateETc et0 kc = et0 * kc \<and> calculateETc 0 kc = 0 \<and> calculateETc et0 0 = 0 \<and>
   calculateETc 5.0 1.15 = 5.75"
  by (simp add: calculateETc_def)

subsection \<open>Lookups\<close>

text \<open>
  C6. \<open>getAllCategories\<close> is the list of the eight declared labels, in declaration order.
  It reads \<open>CROP_CATEGORIES\<close> only: the crop table does not occur in it.
\<close>

theorem getAllCategories_declared:
  "getAllCategories =
     [''Grains & Cereals'', ''Legumes & Pulses'', ''Fiber Crops'', ''Sugar Crops'',
      ''Beverage Crops'', ''Fruits'', ''Vegetables'', ''Oilseeds''] \<and>
   length getAllCategories = 8 \<and> distinct getAllCategories"
  by (simp add: getAllCategories_def object_values_def CROP_CATEGORIES_def)

lemma find_present:
  assumes "\<exists>x \<in> set xs. P x"
  shows "\<exists>x. find P xs = Some x \<and> P x \<and> x \<in> set xs"
  using assms by (induction xs) auto

lemma find_absent:
  assumes "\<forall>x \<in> set xs. \<not> P x"
  shows "find P xs = None"
  using assms by (induction xs) auto

text \<open>
  C7. When some entry of the table has the given id, \<open>getCropById\<close> returns an entry of
  the table whose id is the argument; when none has, it returns the absent value. The
  match is equality of strings, and no branch raises.
\<close>

theorem getCropById_lookup:
  "((\<exists>crop \<in> set BRAZILIAN_CROPS. crop_id crop = i) \<longrightarrow>
      (\<exists>crop. getCropById i = Some crop \<and> crop_id crop = i \<and> crop \<in> set BRAZILIAN_CROPS)) \<and>
   ((\<forall>crop \<in> set BRAZILIAN_CROPS. crop_id crop \<noteq> i) \<longrightarrow> getCropById i = None)"
  unfolding getCropById_def
  using find_present [of BRAZILIAN_CROPS "\<lambda>crop. crop_id crop = i"]
    find_absent [of BRAZILIAN_CROPS "\<lambda>crop. crop_id crop = i"]
  by blast

lemma table_ids:
  "map crop_id BRAZILIAN_CROPS =
    [''corn'', ''rice'', ''wheat'', ''sorghum'', ''soybeans'', ''beans-dry'', ''peanuts'',
     ''cotton'', ''sugarcane-virgin'', ''sugarcane-ratoon'', ''coffee'', ''banana'', ''citrus'',
     ''mango'', ''tomato'', ''potato'', ''onion-dry'', ''cassava'']"
  by (simp add: BRAZILIAN_CROPS_def corn_def rice_def wheat_def sorghum_def soybeans_def
      beans_dry_def peanuts_def cotton_def sugarcane_virgin_def sugarcane_ratoon_def coffee_def
      banana_def citrus_def mango_def tomato_def potato_def onion_dry_def cassava_def)

theorem getCropById_lookup_witness:
  "(\<exists>crop. getCropById ''soybeans'' = Some crop \<and> crop_id crop = ''soybeans'') \<and>
   getCropById ''invalid-crop-id'' = None"
proof -
  have present: "\<exists>crop \<in> set BRAZILIAN_CROPS. crop_id crop = ''soybeans''"
    using soybeans_in_table soybeans_fields(8) by blast
  have notin: "''invalid-crop-id'' \<notin> set (map crop_id BRAZILIAN_CROPS)"
    unfolding table_ids by simp
  have absent: "\<forall>crop \<in> set BRAZILIAN_CROPS. crop_id crop \<noteq> ''invalid-crop-id''"
  proof
    fix crop
    assume "crop \<in> set BRAZILIAN_CROPS"
    then have "crop_id crop \<in> set (map crop_id BRAZILIAN_CROPS)"
      by simp
    with notin show "crop_id crop \<noteq> ''invalid-crop-id''"
      by metis
  qed
  show ?thesis
    using getCropById_lookup [of "''soybeans''"] getCropById_lookup [of "''invalid-crop-id''"]
      present absent
    by blast
qed

subsection \<open>The table and the store\<close>














subsection \<open>Rounding to doubles\<close>

lemma fl_quantum_eval:
  assumes lo: "2 ^ 52 \<le> \<bar>x\<bar> * 2 ^ k" and hi: "\<bar>x\<bar> * 2 ^ k < 2 ^ 53" and k: "k \<le> 1074"
  shows "fl_quantum x = - int k"
proof -
  have pos: "0 < \<bar>x\<bar>"
    using lo by (cases "x = 0") simp_all
  have e: "real_of_int (52 - int k) = 52 - real k" "real_of_int (52 - int k + 1) = 53 - real k"
    by simp_all
  have k2: "(2::real) powr real k = 2 ^ k"
    by (rule powr_realpow) simp
  have p: "2 powr real_of_int (52 - int k) = 2 ^ 52 / 2 ^ k"
    unfolding e powr_diff k2 by simp
  have p1: "2 powr real_of_int (52 - int k + 1) = 2 ^ 53 / 2 ^ k"
    unfolding e powr_diff k2 by simp
  have "2 powr real_of_int (52 - int k) \<le> \<bar>x\<bar>"
    unfolding p using lo by (simp add: field_simps)
  moreover have "\<bar>x\<bar> < 2 powr real_of_int (52 - int k + 1)"
    unfolding p1 using hi by (simp add: field_simps)
  ultimately have "\<lfloor>log 2 \<bar>x\<bar>\<rfloor> = 52 - int k"
    using floor_log_eq_powr_iff [of "\<bar>x\<bar>" 2 "52 - int k"] pos by simp
  then show ?thesis
    using k by (simp add: fl_quantum_def)
qed

lemma fl_round_eval:
  assumes lo: "2 ^ 52 \<le> \<bar>x\<bar> * 2 ^ k" and hi: "\<bar>x\<bar> * 2 ^ k < 2 ^ 53" and k: "k \<le> 1074"
  shows "fl_round x = of_int (round_half_even (x * 2 ^ k)) / 2 ^ k"
proof -
  have nz: "x \<noteq> 0"
    using lo by auto
  have q: "2 powr real_of_int (fl_quantum x) = 1 / 2 ^ k"
    unfolding fl_quantum_eval [OF assms]
    by (simp add: powr_minus inverse_eq_divide powr_realpow)
  show ?thesis
    using nz by (simp add: fl_round_def q)
qed

lemma fl_eval:
  assumes "2 ^ 52 \<le> \<bar>x\<bar> * 2 ^ k" "\<bar>x\<bar> * 2 ^ k < 2 ^ 53" "k \<le> 1074"
    and "round_half_even (x * 2 ^ k) = m" and "\<bar>real_of_int m / 2 ^ k\<bar> \<le> max_double"
  shows "fl x = Some (of_int m / 2 ^ k)"
  using assms(4,5) by (simp add: fl_def fl_round_eval [OF assms(1-3)])

lemma fl_round_zero: "fl_round 0 = 0"
  by (simp add: fl_round_def)

lemma fl_round_3_10: "fl_round (3 / 10) = 5404319552844595 / 2 ^ 54"
  by (subst fl_round_eval [where k = 54]) (simp_all add: round_half_even_def Let_def)

lemma fl_round_8_10: "fl_round (4 / 5) = 3602879701896397 / 2 ^ 52"
  by (subst fl_round_eval [where k = 53]) (simp_all add: round_half_even_def Let_def)



lemma round_half_even_of_int: "round_half_even (of_int m) = m"
  by (simp add: round_half_even_def)

lemma fl_of_nat:
  assumes lo: "2 ^ j \<le> n" and hi: "n < 2 ^ Suc j" and j: "j \<le> 52"
  shows "fl (real n) = Some (real n)"
proof -
  let ?k = "52 - j"
  have "j + ?k = 52" "Suc j + ?k = 53"
    using j by simp_all
  then have split: "(2::real) ^ 52 = 2 ^ j * 2 ^ ?k" "(2::real) ^ 53 = 2 ^ Suc j * 2 ^ ?k"
    by (simp_all only: power_add [symmetric])
  have "real (2 ^ j) \<le> real n"
    using lo by (simp only: of_nat_le_iff)
  then have "(2::real) ^ j \<le> real n"
    by simp
  then have a: "2 ^ 52 \<le> \<bar>real n\<bar> * 2 ^ ?k"
    unfolding split by (intro mult_right_mono) simp_all
  have "real n < real (2 ^ Suc j)"
    using hi by (simp only: of_nat_less_iff)
  then have "real n < 2 ^ Suc j"
    by simp
  then have b: "\<bar>real n\<bar> * 2 ^ ?k < 2 ^ 53"
    unfolding split by (intro mult_strict_right_mono) simp_all
  have "real n * 2 ^ ?k = of_int (int n * 2 ^ ?k)"
    by simp
  then have r: "round_half_even (real n * 2 ^ ?k) = int n * 2 ^ ?k"
    by (simp only: round_half_even_of_int)
  have "(2::nat) ^ Suc j \<le> 2 ^ 53"
    using j by (intro power_increasing) simp_all
  with hi have "n < 2 ^ 53"
    by simp
  then have "real n < real (2 ^ 53)"
    by (simp only: of_nat_less_iff)
  then have m: "\<bar>real_of_int (int n * 2 ^ ?k) / 2 ^ ?k\<bar> \<le> max_double"
    by (simp add: max_double_def)
  have "?k \<le> 1074"
    by simp
  from fl_eval [OF a b this r m] show ?thesis
    by simp
qed

lemma fl_round_of_fl: "fl x = Some y \<Longrightarrow> fl_round x = y"
  by (simp add: fl_def Let_def split: if_splits)

lemma fl_nats:
  "fl 1 = Some 1" "fl 15 = Some 15" "fl 20 = Some 20" "fl 25 = Some 25" "fl 30 = Some 30"
  "fl 40 = Some 40" "fl 50 = Some 50" "fl 60 = Some 60" "fl 90 = Some 90" "fl 120 = Some 120"
  "fl 150 = Some 150" "fl 210 = Some 210"
  using fl_of_nat [of 0 1] fl_of_nat [of 3 15] fl_of_nat [of 4 20] fl_of_nat [of 4 25]
    fl_of_nat [of 4 30] fl_of_nat [of 5 40] fl_of_nat [of 5 50] fl_of_nat [of 5 60]
    fl_of_nat [of 6 90] fl_of_nat [of 6 120] fl_of_nat [of 7 150] fl_of_nat [of 7 210]
  by simp_all

lemmas fl_round_nats = fl_nats [THEN fl_round_of_fl]

lemma cassava_doubles:
  "initial (growthStages (as_doubles cassava)) = 20"
  "development (growthStages (as_doubles cassava)) = 40"
  "midSeason (growthStages (as_doubles cassava)) = 90"
  "lateSeason (growthStages (as_doubles cassava)) = 60"
  "kcInitial (as_doubles cassava) = 5404319552844595 / 2 ^ 54"
  "kcMid (as_doubles cassava) = 3602879701896397 / 2 ^ 52"
  "kcEnd (as_doubles cassava) = 5404319552844595 / 2 ^ 54"
  by (simp_all add: as_doubles_def cassava_def fl_round_nats fl_round_3_10 fl_round_8_10)

lemma cassava_late_ramp:
  "fl (5404319552844595 / 2 ^ 54 - 3602879701896397 / 2 ^ 52) = Some (- (1 / 2))"
  "fl (- (1 / 2)) = Some (- (1 / 2))"
  "fl (3602879701896397 / 2 ^ 52 + - (1 / 2)) = Some (5404319552844596 / 2 ^ 54)"
proof -
  show "fl (5404319552844595 / 2 ^ 54 - 3602879701896397 / 2 ^ 52) = Some (- (1 / 2))"
    by (rule fl_eval [where k = 53 and m = "- (2 ^ 52)", THEN trans])
      (simp_all add: round_half_even_def Let_def max_double_def)
  show "fl (- (1 / 2)) = Some (- (1 / 2))"
    by (rule fl_eval [where k = 53 and m = "- (2 ^ 52)", THEN trans])
      (simp_all add: round_half_even_def Let_def max_double_def)
  show "fl (3602879701896397 / 2 ^ 52 + - (1 / 2)) = Some (5404319552844596 / 2 ^ 54)"
    by (rule fl_eval [where k = 54 and m = 5404319552844596, THEN trans])
      (simp_all add: round_half_even_def Let_def max_double_def)
qed

lemma cassava_season_end:
  "fl_getKcForDay (as_doubles cassava) 210 = Some (5404319552844596 / 2 ^ 54)"
  using cassava_late_ramp
  by (simp add: fl_getKcForDay_def cassava_doubles fl_add_def fl_sub_def fl_mul_def fl_div_def
      fl_nats)




lemma fl_nat_exact:
  assumes "0 < n" and "n < 2 ^ 53"
  shows "fl (real n) = Some (real n)"
proof -
  obtain j where j: "2 ^ j \<le> n" "n < 2 ^ (j + 1)"
    using ex_power_ivl1 [of 2 n] assms(1) by auto
  have "(2::nat) ^ j < 2 ^ 53"
    using j(1) assms(2) by simp
  then have "j < 53"
    by (rule power_less_imp_less_exp [rotated]) simp
  then show ?thesis
    using fl_of_nat [of j n] j by simp
qed

lemma fl_numeral:
  assumes "numeral w < (2::nat) ^ 53"
  shows "fl (numeral w) = Some (numeral w)" and "fl_round (numeral w) = numeral w"
proof -
  show "fl (numeral w) = Some (numeral w)"
    using fl_nat_exact [of "numeral w"] assms by simp
  then show "fl_round (numeral w) = numeral w"
    by (rule fl_round_of_fl)
qed

lemma table_exactBoundaries:
  "\<forall>crop \<in> set BRAZILIAN_CROPS. stagesPositive (as_doubles crop) \<and> exactBoundaries (as_doubles crop)"
  by (simp add: BRAZILIAN_CROPS_def as_doubles_def stagesPositive_def exactBoundaries_def
      fl_add_def fl_numeral corn_def rice_def wheat_def sorghum_def soybeans_def beans_dry_def
      peanuts_def cotton_def sugarcane_virgin_def sugarcane_ratoon_def coffee_def banana_def
      citrus_def mango_def tomato_def potato_def onion_dry_def cassava_def)

lemma exactBoundaries_integer_days:
  assumes days: "initial (growthStages crop) = real i" "development (growthStages crop) = real dv"
      "midSeason (growthStages crop) = real m" "lateSeason (growthStages crop) = real l"
    and pos: "0 < i"
    and small: "i + dv + m + l < 2 ^ 53"
  shows "exactBoundaries crop"
proof -
  have "fl (real (i + dv)) = Some (real (i + dv))"
    using pos small by (intro fl_nat_exact) simp_all
  moreover have "fl (real (i + dv + m)) = Some (real (i + dv + m))"
    using pos small by (intro fl_nat_exact) simp_all
  moreover have "fl (real (i + dv + m + l)) = Some (real (i + dv + m + l))"
    using pos small by (intro fl_nat_exact) simp_all
  ultimately show ?thesis
    by (simp add: exactBoundaries_def fl_add_def days)
qed

lemma exactBoundaries_cassava: "exactBoundaries (as_doubles cassava)"
  by (simp add: exactBoundaries_def cassava_doubles fl_add_def fl_nats)

lemma stagesPositive_cassava_doubles: "stagesPositive (as_doubles cassava)"
  by (simp add: stagesPositive_def cassava_doubles)

lemma fl_getKcForDay_cases:
  assumes "stagesPositive crop" and "exactBoundaries crop"
  shows "(fl_getKcForDay crop day = r \<longleftrightarrow> fl_kcReference crop day r) \<and>
         fl_getKcForDay crop (initial (growthStages crop)) = Some (kcInitial crop) \<and>
         fl_getKcForDay crop (initial (growthStages crop) + development (growthStages crop))
           = fl_interpolate (kcInitial crop) (kcMid crop)
               (initial (growthStages crop) + development (growthStages crop))
               (initial (growthStages crop)) (development (growthStages crop)) \<and>
         fl_getKcForDay crop (initial (growthStages crop) + development (growthStages crop) +
            midSeason (growthStages crop)) = Some (kcMid crop) \<and>
         fl_getKcForDay crop (seasonLength crop)
           = fl_interpolate (kcMid crop) (kcEnd crop) (seasonLength crop)
               (initial (growthStages crop) + development (growthStages crop) +
                  midSeason (growthStages crop)) (lateSeason (growthStages crop))"
  using assms
  by (auto simp add: stagesPositive_def exactBoundaries_def seasonLength_def fl_getKcForDay_def
      fl_kcReference_def fl_interpolate_def Let_def)


subsection \<open>The coefficient of a day\<close>

lemma getKcForDay_development:
  assumes "stagesPositive crop"
    and "initial (growthStages crop) < d"
    and "d \<le> initial (growthStages crop) + development (growthStages crop)"
  shows "getKcForDay crop d =
     Some (kcInitial crop + (d - initial (growthStages crop)) / development (growthStages crop)
        * (kcMid crop - kcInitial crop))"
  using assms by (simp add: stagesPositive_def getKcForDay_def js_div_def Let_def)

lemma getKcForDay_late:
  assumes "stagesPositive crop"
    and "initial (growthStages crop) + development (growthStages crop)
           + midSeason (growthStages crop) < d"
    and "d \<le> seasonLength crop"
  shows "getKcForDay crop d =
     Some (kcMid crop + (d - (initial (growthStages crop) + development (growthStages crop)
           + midSeason (growthStages crop))) / lateSeason (growthStages crop)
        * (kcEnd crop - kcMid crop))"
  using assms by (simp add: stagesPositive_def seasonLength_def getKcForDay_def js_div_def Let_def)

text \<open>
  C1, amended. For a crop with strictly positive stage lengths and every real day,
  \<open>getKcForDay\<close> returns a number (no branch fails), and that number is the one the
  reference curve gives at the day, and no other. At the boundaries \<open>b1\<close> and \<open>b3\<close> it
  returns \<open>kcInitial\<close> and \<open>kcMid\<close>. At \<open>totalDays\<close> the late-season case applies: the
  value is \<open>kcMid + ((totalDays - b3) / lateSeason) * (kcEnd - kcMid)\<close>, and this
  expression is \<open>kcEnd\<close> in exact real arithmetic. In the arithmetic of doubles, for a
  crop whose boundary sums are exact, the same five cases hold with every operation of the
  two ramps rounded: \<open>b1\<close> and \<open>b3\<close> return \<open>kcInitial\<close> and \<open>kcMid\<close> themselves, \<open>b2\<close> and
  \<open>totalDays\<close> return the rounded ends of the two ramps.
\<close>

theorem getKcForDay_reference:
  assumes pos: "stagesPositive crop"
  shows "(\<exists>k. getKcForDay crop day = Some k) \<and>
         (getKcForDay crop day = Some k \<longleftrightarrow> kcReference crop day k) \<and>
         getKcForDay crop (initial (growthStages crop)) = Some (kcInitial crop) \<and>
         getKcForDay crop (initial (growthStages crop) + development (growthStages crop) +
            midSeason (growthStages crop)) = Some (kcMid crop) \<and>
         getKcForDay crop (seasonLength crop) =
           Some (kcMid crop +
             ((seasonLength crop - (initial (growthStages crop) + development (growthStages crop)
                 + midSeason (growthStages crop))) / lateSeason (growthStages crop))
               * (kcEnd crop - kcMid crop)) \<and>
         kcMid crop +
             ((seasonLength crop - (initial (growthStages crop) + development (growthStages crop)
                 + midSeason (growthStages crop))) / lateSeason (growthStages crop))
               * (kcEnd crop - kcMid crop) = kcEnd crop \<and>
         (exactBoundaries crop \<longrightarrow>
            (fl_getKcForDay crop day = r \<longleftrightarrow> fl_kcReference crop day r) \<and>
            fl_getKcForDay crop (initial (growthStages crop)) = Some (kcInitial crop) \<and>
            fl_getKcForDay crop (initial (growthStages crop) + development (growthStages crop))
              = fl_interpolate (kcInitial crop) (kcMid crop)
                  (initial (growthStages crop) + development (growthStages crop))
                  (initial (growthStages crop)) (development (growthStages crop)) \<and>
            fl_getKcForDay crop (initial (growthStages crop) + development (growthStages crop) +
               midSeason (growthStages crop)) = Some (kcMid crop) \<and>
            fl_getKcForDay crop (seasonLength crop)
              = fl_interpolate (kcMid crop) (kcEnd crop) (seasonLength crop)
                  (initial (growthStages crop) + development (growthStages crop) +
                     midSeason (growthStages crop)) (lateSeason (growthStages crop)))"
proof -
  have exact: "(\<exists>k. getKcForDay crop day = Some k) \<and>
         (getKcForDay crop day = Some k \<longleftrightarrow> kcReference crop day k) \<and>
         getKcForDay crop (initial (growthStages crop)) = Some (kcInitial crop) \<and>
         getKcForDay crop (initial (growthStages crop) + development (growthStages crop) +
            midSeason (growthStages crop)) = Some (kcMid crop) \<and>
         getKcForDay crop (seasonLength crop) =
           Some (kcMid crop +
             ((seasonLength crop - (initial (growthStages crop) + development (growthStages crop)
                 + midSeason (growthStages crop))) / lateSeason (growthStages crop))
               * (kcEnd crop - kcMid crop)) \<and>
         kcMid crop +
             ((seasonLength crop - (initial (growthStages crop) + development (growthStages crop)
                 + midSeason (growthStages crop))) / lateSeason (growthStages crop))
               * (kcEnd crop - kcMid crop) = kcEnd crop"
    using pos
    by (auto simp add: stagesPositive_def seasonLength_def getKcForDay_def kcReference_def
        js_div_def Let_def)
  show ?thesis
    using exact fl_getKcForDay_cases [OF pos, of day r] by blast
qed

theorem getKcForDay_reference_witness:
  "stagesPositive soybeans \<and> getKcForDay soybeans 20 = Some 0.55 \<and>
   kcReference soybeans 20 0.55 \<and> getKcForDay soybeans 15 = Some 0.4 \<and>
   getKcForDay soybeans 90 = Some 1.15 \<and>
   getKcForDay soybeans 120 = Some (1.15 + ((120 - 90) / 30) * (0.5 - 1.15)) \<and>
   stagesPositive (as_doubles cassava) \<and> exactBoundaries (as_doubles cassava) \<and>
   fl_getKcForDay (as_doubles cassava) 20 = Some (kcInitial (as_doubles cassava)) \<and>
   fl_getKcForDay (as_doubles cassava) 150 = Some (kcMid (as_doubles cassava))"
proof -
  have r: "kcReference soybeans 20 0.55"
    by (simp add: kcReference_def soybeans_fields)
  have exact: "getKcForDay soybeans 20 = Some 0.55 \<and> getKcForDay soybeans 15 = Some 0.4 \<and>
      getKcForDay soybeans 90 = Some 1.15 \<and>
      getKcForDay soybeans 120 = Some (1.15 + ((120 - 90) / 30) * (0.5 - 1.15))"
    using getKcForDay_reference [OF stagesPositive_soybeans, of 20 "0.55"] r
    by (simp add: soybeans_fields seasonLength_soybeans)
  have doubles: "fl_getKcForDay (as_doubles cassava) 20 = Some (kcInitial (as_doubles cassava)) \<and>
      fl_getKcForDay (as_doubles cassava) 150 = Some (kcMid (as_doubles cassava))"
    using getKcForDay_reference [OF stagesPositive_cassava_doubles] exactBoundaries_cassava
    by (simp add: cassava_doubles)
  from exact doubles r stagesPositive_soybeans stagesPositive_cassava_doubles
    exactBoundaries_cassava
  show ?thesis
    by simp
qed

text \<open>
  C1, as the claim states it, fails at \<open>totalDays\<close>: on the table's cassava (stages
  20/40/90/60, \<open>kcMid\<close> 0.8, \<open>kcEnd\<close> 0.3) and day 210 the code's doubles give
  \<open>0.8 + (60 / 60) * (0.3 - 0.8) = 0.30000000000000004\<close>, the double next above \<open>kcEnd\<close>.
\<close>

theorem getKcForDay_season_end_counterexample:
  "stagesPositive (as_doubles cassava) \<and>
   seasonLength (as_doubles cassava) = 210 \<and>
   kcEnd (as_doubles cassava) = 5404319552844595 / 2 ^ 54 \<and>
   fl_getKcForDay (as_doubles cassava) 210 = Some (5404319552844596 / 2 ^ 54) \<and>
   fl_getKcForDay (as_doubles cassava) (seasonLength (as_doubles cassava))
     \<noteq> Some (kcEnd (as_doubles cassava))"
  by (simp add: stagesPositive_def seasonLength_def cassava_doubles cassava_season_end)

subsection \<open>Interpolation between two coefficients\<close>




lemma interp_mono:
  fixes a b x y len :: real
  assumes "0 < len" "x \<le> y" "a \<le> b"
  shows "a + x / len * (b - a) \<le> a + y / len * (b - a)"
proof -
  have "x / len \<le> y / len" using assms by (simp add: divide_right_mono)
  then have "x / len * (b - a) \<le> y / len * (b - a)"
    using assms by (intro mult_right_mono) simp_all
  then show ?thesis by simp
qed

lemma interp_antimono:
  fixes a b x y len :: real
  assumes "0 < len" "x \<le> y" "b \<le> a"
  shows "a + y / len * (b - a) \<le> a + x / len * (b - a)"
proof -
  have "x / len \<le> y / len" using assms by (simp add: divide_right_mono)
  then have "y / len * (b - a) \<le> x / len * (b - a)"
    using assms by (intro mult_right_mono_neg) simp_all
  then show ?thesis by simp
qed

subsection \<open>Monotonicity and range\<close>

text \<open>
  C5. For a crop with strictly positive stage lengths and two days \<open>d1 \<le> d2\<close>: when both
  lie in the development stage and \<open>kcInitial < kcMid\<close>, the coefficient at \<open>d1\<close> is at most
  the one at \<open>d2\<close>; when both lie in the late-season stage, the coefficient does not decrease
  from \<open>d1\<close> to \<open>d2\<close> if \<open>kcMid \<le> kcEnd\<close> and does not increase if \<open>kcEnd \<le> kcMid\<close>.
\<close>

theorem getKcForDay_monotone:
  assumes pos: "stagesPositive crop" and le: "d1 \<le> d2"
  shows "(kcInitial crop < kcMid crop \<and> initial (growthStages crop) < d1 \<and>
          d2 \<le> initial (growthStages crop) + development (growthStages crop) \<longrightarrow>
            (\<exists>k1 k2. getKcForDay crop d1 = Some k1 \<and> getKcForDay crop d2 = Some k2 \<and> k1 \<le> k2)) \<and>
         (initial (growthStages crop) + development (growthStages crop)
             + midSeason (growthStages crop) < d1 \<and> d2 \<le> seasonLength crop \<longrightarrow>
            (\<exists>k1 k2. getKcForDay crop d1 = Some k1 \<and> getKcForDay crop d2 = Some k2 \<and>
               (kcMid crop \<le> kcEnd crop \<longrightarrow> k1 \<le> k2) \<and>
               (kcEnd crop \<le> kcMid crop \<longrightarrow> k2 \<le> k1)))"
proof (intro conjI impI)
  assume a: "kcInitial crop < kcMid crop \<and> initial (growthStages crop) < d1 \<and>
          d2 \<le> initial (growthStages crop) + development (growthStages crop)"
  have len: "0 < development (growthStages crop)"
    using pos by (simp add: stagesPositive_def)
  have "getKcForDay crop d1 = Some (kcInitial crop + (d1 - initial (growthStages crop)) / development (growthStages crop)
        * (kcMid crop - kcInitial crop))"
    using a le by (intro getKcForDay_development [OF pos]) simp_all
  moreover have "getKcForDay crop d2 = Some (kcInitial crop + (d2 - initial (growthStages crop)) / development (growthStages crop)
        * (kcMid crop - kcInitial crop))"
    using a le by (intro getKcForDay_development [OF pos]) simp_all
  moreover have "kcInitial crop + (d1 - initial (growthStages crop)) / development (growthStages crop)
        * (kcMid crop - kcInitial crop) \<le> kcInitial crop + (d2 - initial (growthStages crop)) / development (growthStages crop)
        * (kcMid crop - kcInitial crop)"
    using a le by (intro interp_mono [OF len]) simp_all
  ultimately show "\<exists>k1 k2. getKcForDay crop d1 = Some k1 \<and> getKcForDay crop d2 = Some k2 \<and> k1 \<le> k2"
    by simp
next
  let ?b3 = "initial (growthStages crop) + development (growthStages crop)
             + midSeason (growthStages crop)"
  let ?late = "lateSeason (growthStages crop)"
  assume a: "?b3 < d1 \<and> d2 \<le> seasonLength crop"
  have len: "0 < ?late"
    using pos by (simp add: stagesPositive_def)
  have k1: "getKcForDay crop d1 = Some (kcMid crop + (d1 - ?b3) / ?late * (kcEnd crop - kcMid crop))"
    using a le by (intro getKcForDay_late [OF pos]) simp_all
  have k2: "getKcForDay crop d2 = Some (kcMid crop + (d2 - ?b3) / ?late * (kcEnd crop - kcMid crop))"
    using a le by (intro getKcForDay_late [OF pos]) simp_all
  have up: "kcMid crop \<le> kcEnd crop \<longrightarrow>
      kcMid crop + (d1 - ?b3) / ?late * (kcEnd crop - kcMid crop)
       \<le> kcMid crop + (d2 - ?b3) / ?late * (kcEnd crop - kcMid crop)"
  proof
    assume "kcMid crop \<le> kcEnd crop"
    then show "kcMid crop + (d1 - ?b3) / ?late * (kcEnd crop - kcMid crop)
       \<le> kcMid crop + (d2 - ?b3) / ?late * (kcEnd crop - kcMid crop)"
      using le by (intro interp_mono [OF len]) simp_all
  qed
  have down: "kcEnd crop \<le> kcMid crop \<longrightarrow>
      kcMid crop + (d2 - ?b3) / ?late * (kcEnd crop - kcMid crop)
       \<le> kcMid crop + (d1 - ?b3) / ?late * (kcEnd crop - kcMid crop)"
  proof
    assume "kcEnd crop \<le> kcMid crop"
    then show "kcMid crop + (d2 - ?b3) / ?late * (kcEnd crop - kcMid crop)
       \<le> kcMid crop + (d1 - ?b3) / ?late * (kcEnd crop - kcMid crop)"
      using le by (intro interp_antimono [OF len]) simp_all
  qed
  show "\<exists>k1 k2. getKcForDay crop d1 = Some k1 \<and> getKcForDay crop d2 = Some k2 \<and>
               (kcMid crop \<le> kcEnd crop \<longrightarrow> k1 \<le> k2) \<and>
               (kcEnd crop \<le> kcMid crop \<longrightarrow> k2 \<le> k1)"
    using k1 k2 up down by simp
qed

theorem getKcForDay_monotone_witness:
  "(\<exists>k1 k2. getKcForDay soybeans 20 = Some k1 \<and> getKcForDay soybeans 30 = Some k2 \<and> k1 \<le> k2) \<and>
   (\<exists>k1 k2. getKcForDay soybeans 100 = Some k1 \<and> getKcForDay soybeans 110 = Some k2 \<and> k2 \<le> k1) \<and>
   (\<exists>k1 k2. getKcForDay citrus 300 = Some k1 \<and> getKcForDay citrus 330 = Some k2 \<and> k1 \<le> k2)"
  using getKcForDay_monotone [OF stagesPositive_soybeans, of 20 30]
    getKcForDay_monotone [OF stagesPositive_soybeans, of 100 110]
    getKcForDay_monotone [OF stagesPositive_citrus, of 300 330]
  by (simp add: soybeans_fields seasonLength_soybeans citrus_fields seasonLength_citrus)





subsection \<open>The seasonal requirement\<close>

lemma soybeans_averageKc:
  "averageKc (calculateSeasonalWaterRequirement soybeans 4) = Some (287 / 320)"
  by (simp add: calculateSeasonalWaterRequirement_def js_div_def Let_def soybeans_fields)

text \<open>
  C2. For a crop with strictly positive stage lengths and every real \<open>averageET0\<close>, the
  record returned has: \<open>totalDays\<close> the sum of the four stage lengths; \<open>averageKc\<close> the
  duration-weighted mean of the per-stage averages; \<open>totalWaterMm\<close> equal to
  \<open>averageKc * averageET0 * totalDays\<close>; \<open>dailyAverageWaterMm\<close> equal to
  \<open>totalWaterMm / totalDays\<close>. All three quotients are numbers.
\<close>

theorem calculateSeasonalWaterRequirement_fields:
  assumes "stagesPositive crop"
  shows "let r = calculateSeasonalWaterRequirement crop averageET0;
             k = (kcInitial crop * initial (growthStages crop)
                  + ((kcInitial crop + kcMid crop) / 2) * development (growthStages crop)
                  + kcMid crop * midSeason (growthStages crop)
                  + ((kcMid crop + kcEnd crop) / 2) * lateSeason (growthStages crop))
                 / totalDays r;
             w = k * averageET0 * totalDays r
         in totalDays r = initial (growthStages crop) + development (growthStages crop)
                + midSeason (growthStages crop) + lateSeason (growthStages crop) \<and>
            averageKc r = Some k \<and>
            totalWaterMm r = Some w \<and>
            dailyAverageWaterMm r = Some (w / totalDays r)"
  using assms
  by (simp add: stagesPositive_def calculateSeasonalWaterRequirement_def js_div_def Let_def)

theorem calculateSeasonalWaterRequirement_fields_witness:
  "totalDays (calculateSeasonalWaterRequirement soybeans 4) = 120 \<and>
   averageKc (calculateSeasonalWaterRequirement soybeans 4) = Some (287 / 320) \<and>
   totalWaterMm (calculateSeasonalWaterRequirement soybeans 4) = Some (861 / 2) \<and>
   dailyAverageWaterMm (calculateSeasonalWaterRequirement soybeans 4) = Some (287 / 80)"
  using calculateSeasonalWaterRequirement_fields [OF stagesPositive_soybeans, of 4]
  by (simp add: Let_def soybeans_fields)

text \<open>
  C10. For a crop with strictly positive stage lengths and every real \<open>averageET0\<close>,
  \<open>dailyAverageWaterMm\<close> of the record returned is \<open>averageKc * averageET0\<close>.
\<close>

theorem dailyAverageWaterMm_scaled_averageKc:
  assumes "stagesPositive crop"
  shows "\<exists>k. averageKc (calculateSeasonalWaterRequirement crop averageET0) = Some k \<and>
           dailyAverageWaterMm (calculateSeasonalWaterRequirement crop averageET0)
             = Some (k * averageET0)"
  using assms
  by (simp add: stagesPositive_def calculateSeasonalWaterRequirement_def js_div_def Let_def)

theorem dailyAverageWaterMm_scaled_averageKc_witness:
  "dailyAverageWaterMm (calculateSeasonalWaterRequirement soybeans 4) = Some (287 / 320 * 4)"
  using dailyAverageWaterMm_scaled_averageKc [OF stagesPositive_soybeans, of 4]
    soybeans_averageKc
  by auto

subsection \<open>The area under the curve\<close>

lemma getKcForDay_total: "\<exists>k. getKcForDay crop t = Some k"
  by (auto simp add: getKcForDay_def js_div_def Let_def)

lemma getKcForDay_kcCurve: "getKcForDay crop t = Some (kcCurve crop t)"
  using getKcForDay_total [of crop t] by (auto simp add: kcCurve_def)

lemma ramp_sq_DERIV: "((\<lambda>x. (ramp x)\<^sup>2) has_real_derivative 2 * ramp x) (at x)"
proof -
  consider (neg) "x < 0" | (zero) "x = 0" | (pos) "0 < x"
    by linarith
  then show ?thesis
  proof cases
    case neg
    have "((\<lambda>x::real. 0) has_real_derivative 0) (at x)"
      by simp
    then have "((\<lambda>x. (ramp x)\<^sup>2) has_real_derivative 0) (at x)"
      by (rule has_field_derivative_transform_within_open [where S = "{..<0}"])
        (use neg in \<open>auto simp: ramp_def\<close>)
    then show ?thesis
      using neg by (simp add: ramp_def)
  next
    case pos
    have "((\<lambda>x::real. x\<^sup>2) has_real_derivative 2 * x) (at x)"
      by (auto intro!: derivative_eq_intros)
    then have "((\<lambda>x. (ramp x)\<^sup>2) has_real_derivative 2 * x) (at x)"
      by (rule has_field_derivative_transform_within_open [where S = "{0<..}"])
        (use pos in \<open>auto simp: ramp_def\<close>)
    then show ?thesis
      using pos by (simp add: ramp_def)
  next
    case zero
    have "(\<lambda>h. ramp h) \<midarrow>0\<rightarrow> ramp 0"
      unfolding ramp_def by (intro tendsto_intros)
    then have "(\<lambda>h. ramp h) \<midarrow>0\<rightarrow> 0"
      by (simp add: ramp_def)
    moreover have "\<forall>\<^sub>F h in at 0. ramp h = ((ramp (0 + h))\<^sup>2 - (ramp 0)\<^sup>2) / h"
      unfolding eventually_at_filter
      by (auto simp: ramp_def power2_eq_square max_def)
    ultimately have "(\<lambda>h. ((ramp (0 + h))\<^sup>2 - (ramp 0)\<^sup>2) / h) \<midarrow>0\<rightarrow> 0"
      by (rule Lim_transform_eventually)
    then show ?thesis
      using zero by (simp add: DERIV_def ramp_def)
  qed
qed

lemma ramp_sq_shift_DERIV:
  "((\<lambda>t. (ramp (t - b))\<^sup>2) has_real_derivative 2 * ramp (t - b)) (at t)"
proof -
  have "((\<lambda>t. t - b) has_real_derivative 1) (at t)"
    by (auto intro!: derivative_eq_intros)
  from DERIV_chain' [OF this ramp_sq_DERIV [of "t - b"]]
  show ?thesis by simp
qed

lemma kcPrimitive_DERIV: "(kcPrimitive crop has_real_derivative kcRamps crop t) (at t)"
proof -
  have flat: "((\<lambda>t. kcInitial crop * t) has_real_derivative kcInitial crop) (at t)"
    using DERIV_cmult [OF DERIV_ident, of "kcInitial crop" t UNIV] by simp
  show ?thesis
    unfolding kcPrimitive_def [abs_def] kcRamps_def Let_def
    by (intro DERIV_add DERIV_cmult DERIV_diff flat ramp_sq_shift_DERIV)
qed

lemma ramp_simps: "x \<le> 0 \<Longrightarrow> ramp x = 0" "0 \<le> x \<Longrightarrow> ramp x = x"
  by (simp_all add: ramp_def)

lemma getKcForDay_kcRamps:
  assumes pos: "stagesPositive crop" and t: "0 \<le> t" "t \<le> seasonLength crop"
  shows "getKcForDay crop t = Some (kcRamps crop t)"
proof -
  let ?b1 = "initial (growthStages crop)"
  let ?b2 = "?b1 + development (growthStages crop)"
  let ?b3 = "?b2 + midSeason (growthStages crop)"
  have lens: "0 < ?b1" "0 < development (growthStages crop)" "0 < midSeason (growthStages crop)"
    "0 < lateSeason (growthStages crop)"
    using pos by (simp_all add: stagesPositive_def)
  consider (ini) "t \<le> ?b1" | (dev) "?b1 < t" "t \<le> ?b2" | (mid) "?b2 < t" "t \<le> ?b3"
    | (late) "?b3 < t"
    by linarith
  then show ?thesis
  proof cases
    case ini
    then have "getKcForDay crop t = Some (kcInitial crop)"
      using t lens by (simp add: getKcForDay_def seasonLength_def Let_def)
    moreover have "kcRamps crop t = kcInitial crop"
      using ini lens by (simp add: kcRamps_def ramp_simps)
    ultimately show ?thesis by simp
  next
    case dev
    have "kcRamps crop t = kcInitial crop + (t - ?b1) / development (growthStages crop)
        * (kcMid crop - kcInitial crop)"
      using dev lens by (simp add: kcRamps_def ramp_simps field_simps)
    then show ?thesis
      using getKcForDay_development [OF pos dev] by simp
  next
    case mid
    then have "getKcForDay crop t = Some (kcMid crop)"
      using t lens by (simp add: getKcForDay_def seasonLength_def Let_def)
    moreover have "kcRamps crop t = kcMid crop"
      using mid lens by (simp add: kcRamps_def ramp_simps field_simps)
    ultimately show ?thesis by simp
  next
    case late
    have "kcRamps crop t = kcMid crop + (t - ?b3) / lateSeason (growthStages crop)
        * (kcEnd crop - kcMid crop)"
      using late lens by (simp add: kcRamps_def ramp_simps field_simps)
    then show ?thesis
      using getKcForDay_late [OF pos late t(2)] by simp
  qed
qed

lemma kcPrimitive_antiderivative:
  assumes "stagesPositive crop"
  shows "kcAntiderivative crop (kcPrimitive crop)"
  unfolding kcAntiderivative_def
proof
  fix t
  assume "t \<in> {0 .. seasonLength crop}"
  then have "getKcForDay crop t = Some (kcRamps crop t)"
    by (intro getKcForDay_kcRamps [OF assms]) simp_all
  moreover have "(kcPrimitive crop has_real_derivative kcRamps crop t)
      (at t within {0 .. seasonLength crop})"
    by (rule has_field_derivative_at_within [OF kcPrimitive_DERIV])
  ultimately show "\<exists>k. getKcForDay crop t = Some k \<and>
      (kcPrimitive crop has_real_derivative k) (at t within {0 .. seasonLength crop})"
    by blast
qed

lemma kcPrimitive_season:
  assumes pos: "stagesPositive crop"
  shows "kcPrimitive crop (seasonLength crop) - kcPrimitive crop 0 =
     kcInitial crop * initial (growthStages crop)
     + ((kcInitial crop + kcMid crop) / 2) * development (growthStages crop)
     + kcMid crop * midSeason (growthStages crop)
     + ((kcMid crop + kcEnd crop) / 2) * lateSeason (growthStages crop)"
proof -
  have lens: "0 < initial (growthStages crop)" "0 < development (growthStages crop)"
    "0 < midSeason (growthStages crop)" "0 < lateSeason (growthStages crop)"
    using pos by (simp_all add: stagesPositive_def)
  show ?thesis
    using lens
    by (simp add: kcPrimitive_def seasonLength_def Let_def ramp_simps field_simps power2_eq_square)
qed

lemma antiderivatives_agree:
  fixes F G :: "real \<Rightarrow> real"
  assumes ab: "a < b"
    and F: "\<forall>t \<in> {a .. b}. (F has_real_derivative f t) (at t within {a .. b})"
    and G: "\<forall>t \<in> {a .. b}. (G has_real_derivative f t) (at t within {a .. b})"
  shows "F b - F a = G b - G a"
proof -
  let ?H = "\<lambda>t. F t - G t"
  have H: "(?H has_real_derivative 0) (at t within {a .. b})" if "t \<in> {a .. b}" for t
    using DERIV_diff [of F "f t" t "{a .. b}" G "f t"] F G that by simp
  have cont: "continuous_on {a .. b} ?H"
    by (rule DERIV_continuous_on) (rule H)
  have "(?H has_real_derivative 0) (at t)" if "a < t" "t < b" for t
    using H [of t] that by (simp add: at_within_Icc_at)
  then have "?H b = ?H a"
    by (intro DERIV_isconst_end [OF ab cont])
  then show ?thesis by simp
qed

lemma kcAntiderivative_season:
  assumes pos: "stagesPositive crop" and F: "kcAntiderivative crop F"
  shows "F (seasonLength crop) - F 0 =
     kcInitial crop * initial (growthStages crop)
     + ((kcInitial crop + kcMid crop) / 2) * development (growthStages crop)
     + kcMid crop * midSeason (growthStages crop)
     + ((kcMid crop + kcEnd crop) / 2) * lateSeason (growthStages crop)"
proof -
  let ?T = "seasonLength crop"
  let ?f = "\<lambda>t. the (getKcForDay crop t)"
  have T: "0 < ?T"
    using pos by (simp add: stagesPositive_def seasonLength_def)
  have deriv: "\<forall>t \<in> {0 .. ?T}. (G has_real_derivative ?f t) (at t within {0 .. ?T})"
    if "kcAntiderivative crop G" for G
    using that unfolding kcAntiderivative_def by fastforce
  have "F ?T - F 0 = kcPrimitive crop ?T - kcPrimitive crop 0"
    by (rule antiderivatives_agree [OF T deriv [OF F] deriv [OF kcPrimitive_antiderivative [OF pos]]])
  then show ?thesis
    by (simp only: kcPrimitive_season [OF pos])
qed

lemma ramp_lipschitz: "\<bar>ramp x - ramp y\<bar> \<le> \<bar>x - y\<bar>"
  by (simp add: ramp_def max_def)

lemma three_terms_bound:
  fixes A B u1 u2 u3 d :: real
  assumes "\<bar>u1\<bar> \<le> d" "\<bar>u2\<bar> \<le> d" "\<bar>u3\<bar> \<le> d"
  shows "\<bar>A * (2 * u1 - 2 * u2) + B * (2 * u3)\<bar> \<le> (4 * \<bar>A\<bar> + 2 * \<bar>B\<bar>) * d"
proof -
  have "\<bar>2 * u1 - 2 * u2\<bar> \<le> 4 * d"
    using assms by linarith
  then have a: "\<bar>A\<bar> * \<bar>2 * u1 - 2 * u2\<bar> \<le> \<bar>A\<bar> * (4 * d)"
    by (intro mult_left_mono) simp_all
  have "\<bar>2 * u3\<bar> \<le> 2 * d"
    using assms by linarith
  then have b: "\<bar>B\<bar> * \<bar>2 * u3\<bar> \<le> \<bar>B\<bar> * (2 * d)"
    by (intro mult_left_mono) simp_all
  have "\<bar>A * (2 * u1 - 2 * u2) + B * (2 * u3)\<bar>
      \<le> \<bar>A\<bar> * \<bar>2 * u1 - 2 * u2\<bar> + \<bar>B\<bar> * \<bar>2 * u3\<bar>"
    using abs_triangle_ineq [of "A * (2 * u1 - 2 * u2)" "B * (2 * u3)"]
    by (simp only: abs_mult)
  also have "\<dots> \<le> \<bar>A\<bar> * (4 * d) + \<bar>B\<bar> * (2 * d)"
    using a b by linarith
  finally show ?thesis
    by (simp add: algebra_simps)
qed

lemma kcRamps_lipschitz: "\<bar>kcRamps crop x - kcRamps crop y\<bar> \<le> kcSlope crop * \<bar>x - y\<bar>"
proof -
  let ?b1 = "initial (growthStages crop)"
  let ?b2 = "?b1 + development (growthStages crop)"
  let ?b3 = "?b2 + midSeason (growthStages crop)"
  let ?A = "(kcMid crop - kcInitial crop) / (2 * development (growthStages crop))"
  let ?B = "(kcEnd crop - kcMid crop) / (2 * lateSeason (growthStages crop))"
  have u: "\<bar>ramp (x - b) - ramp (y - b)\<bar> \<le> \<bar>x - y\<bar>" for b
    using ramp_lipschitz [of "x - b" "y - b"] by simp
  have "kcRamps crop x - kcRamps crop y =
      ?A * (2 * (ramp (x - ?b1) - ramp (y - ?b1)) - 2 * (ramp (x - ?b2) - ramp (y - ?b2)))
      + ?B * (2 * (ramp (x - ?b3) - ramp (y - ?b3)))"
    by (simp add: kcRamps_def algebra_simps)
  then show ?thesis
    using three_terms_bound [OF u [of ?b1] u [of ?b2] u [of ?b3], of ?A ?B]
    by (simp add: kcSlope_def)
qed

lemma kcSlope_nonneg: "0 \<le> kcSlope crop"
  by (simp add: kcSlope_def)

lemma kcPrimitive_step:
  assumes "a \<le> b"
  shows "\<bar>kcRamps crop a * (b - a) - (kcPrimitive crop b - kcPrimitive crop a)\<bar>
           \<le> kcSlope crop * (b - a)\<^sup>2"
proof (cases "a = b")
  case True
  then show ?thesis by simp
next
  case False
  then have ab: "a < b" using assms by simp
  obtain z where z: "a < z" "z < b"
    "kcPrimitive crop b - kcPrimitive crop a = (b - a) * kcRamps crop z"
    using MVT2 [OF ab, of "kcPrimitive crop" "kcRamps crop"] kcPrimitive_DERIV
    by blast
  have "\<bar>kcRamps crop a - kcRamps crop z\<bar> \<le> kcSlope crop * \<bar>a - z\<bar>"
    by (rule kcRamps_lipschitz)
  also have "\<dots> \<le> kcSlope crop * (b - a)"
    using z by (intro mult_left_mono kcSlope_nonneg) simp
  finally have "\<bar>kcRamps crop a - kcRamps crop z\<bar> * (b - a) \<le> kcSlope crop * (b - a) * (b - a)"
    using ab by (intro mult_right_mono) simp_all
  moreover have "kcRamps crop a * (b - a) - (kcPrimitive crop b - kcPrimitive crop a)
      = (kcRamps crop a - kcRamps crop z) * (b - a)"
    by (simp add: z(3) algebra_simps)
  moreover have "\<bar>b - a\<bar> = b - a"
    using ab by simp
  ultimately show ?thesis
    by (simp add: abs_mult power2_eq_square)
qed

lemma grid_step:
  fixes T :: real
  shows "T * real (Suc i) / real n - T * real i / real n = T / real n"
proof -
  have "T * real (Suc i) - T * real i = T"
    by (simp add: algebra_simps)
  then have "(T * real (Suc i) - T * real i) / real n = T / real n"
    by simp
  then show ?thesis
    by (simp only: diff_divide_distrib)
qed

lemma grid_mono:
  fixes T :: real
  assumes "0 \<le> T"
  shows "T * real i / real n \<le> T * real (Suc i) / real n"
  using assms by (intro divide_right_mono mult_left_mono) simp_all

lemma grid_in_range:
  fixes T :: real
  assumes "0 \<le> T" "i < n"
  shows "0 \<le> T * real i / real n \<and> T * real i / real n \<le> T"
proof -
  have "real i / real n \<le> 1"
    using assms(2) by simp
  then have "T * (real i / real n) \<le> T * 1"
    using assms(1) by (intro mult_left_mono) simp_all
  then show ?thesis
    using assms(1) by simp
qed

lemma riemannSum_telescoped:
  fixes P f :: "real \<Rightarrow> real"
  assumes n: "0 < n"
  shows "riemannSum f T n - (P T - P 0) =
     (\<Sum>i<n. f (T * real i / real n) * (T / real n)
          - (P (T * real (Suc i) / real n) - P (T * real i / real n)))"
proof -
  have "(\<Sum>i<n. P (T * real (Suc i) / real n) - P (T * real i / real n)) = P T - P 0"
    using sum_lessThan_telescope [of "\<lambda>i. P (T * real i / real n)" n] n by simp
  then show ?thesis
    by (simp only: riemannSum_def sum_subtractf)
qed

lemma riemannSum_kcCurve:
  assumes pos: "stagesPositive crop"
  shows "riemannSum (kcCurve crop) (seasonLength crop) n
       = riemannSum (kcRamps crop) (seasonLength crop) n"
  unfolding riemannSum_def
proof (rule sum.cong [OF refl])
  fix i
  assume "i \<in> {..<n}"
  then have i: "i < n"
    by simp
  have "0 \<le> seasonLength crop"
    using pos by (simp add: stagesPositive_def seasonLength_def)
  from grid_in_range [OF this i]
  have "getKcForDay crop (seasonLength crop * real i / real n)
      = Some (kcRamps crop (seasonLength crop * real i / real n))"
    by (intro getKcForDay_kcRamps [OF pos]) simp_all
  then have "kcCurve crop (seasonLength crop * real i / real n)
      = kcRamps crop (seasonLength crop * real i / real n)"
    by (simp only: kcCurve_def option.case)
  then show "kcCurve crop (seasonLength crop * real i / real n) * (seasonLength crop / real n)
      = kcRamps crop (seasonLength crop * real i / real n) * (seasonLength crop / real n)"
    by (rule arg_cong)
qed

lemma riemannSum_kcRamps_error:
  assumes T: "0 \<le> T" and n: "0 < n"
  shows "\<bar>riemannSum (kcRamps crop) T n - (kcPrimitive crop T - kcPrimitive crop 0)\<bar>
          \<le> kcSlope crop * T\<^sup>2 / real n"
proof -
  let ?gap = "\<lambda>i. kcRamps crop (T * real i / real n) * (T / real n)
     - (kcPrimitive crop (T * real (Suc i) / real n) - kcPrimitive crop (T * real i / real n))"
  have "\<bar>riemannSum (kcRamps crop) T n - (kcPrimitive crop T - kcPrimitive crop 0)\<bar>
      = \<bar>\<Sum>i<n. ?gap i\<bar>"
    by (simp only: riemannSum_telescoped [OF n])
  also have "\<dots> \<le> (\<Sum>i<n. \<bar>?gap i\<bar>)"
    by (rule sum_abs)
  also have "\<dots> \<le> (\<Sum>i<n. kcSlope crop * (T / real n)\<^sup>2)"
  proof (rule sum_mono)
    fix i
    from kcPrimitive_step [OF grid_mono [OF T, of i n], of crop]
    show "\<bar>?gap i\<bar> \<le> kcSlope crop * (T / real n)\<^sup>2"
      by (simp only: grid_step)
  qed
  also have "\<dots> = kcSlope crop * T\<^sup>2 / real n"
    using n by (simp add: power2_eq_square field_simps)
  finally show ?thesis .
qed

lemma riemannSum_error:
  assumes pos: "stagesPositive crop" and n: "0 < n"
  shows "\<bar>riemannSum (kcCurve crop) (seasonLength crop) n
            - (kcPrimitive crop (seasonLength crop) - kcPrimitive crop 0)\<bar>
          \<le> kcSlope crop * (seasonLength crop)\<^sup>2 / real n"
proof -
  have "0 \<le> seasonLength crop"
    using pos by (simp add: stagesPositive_def seasonLength_def)
  from riemannSum_kcRamps_error [OF this n, of crop] show ?thesis
    by (simp only: riemannSum_kcCurve [OF pos])
qed

lemma riemannSum_kcCurve_limit:
  assumes pos: "stagesPositive crop"
  shows "(\<lambda>n. riemannSum (kcCurve crop) (seasonLength crop) n)
           \<longlonglongrightarrow> kcPrimitive crop (seasonLength crop) - kcPrimitive crop 0"
proof -
  let ?I = "kcPrimitive crop (seasonLength crop) - kcPrimitive crop 0"
  let ?C = "kcSlope crop * (seasonLength crop)\<^sup>2"
  have "(\<lambda>n. 1 / real n) \<longlonglongrightarrow> 0"
    by (rule lim_1_over_n)
  moreover have "\<forall>\<^sub>F n in sequentially.
      norm (riemannSum (kcCurve crop) (seasonLength crop) n - ?I) \<le> norm (1 / real n) * ?C"
    using eventually_gt_at_top [of 0]
  proof eventually_elim
    case (elim n)
    then show ?case
      using riemannSum_error [OF pos, of n] by (simp add: field_simps)
  qed
  ultimately have "(\<lambda>n. riemannSum (kcCurve crop) (seasonLength crop) n - ?I) \<longlonglongrightarrow> 0"
    by (rule tendsto_0_le)
  then show ?thesis
    by (simp only: LIM_zero_iff)
qed

text \<open>
  C3. For a crop with strictly positive stage lengths, the endpoint averages are exact:
  \<open>averageKc * totalDays\<close> is the integral of the curve of \<open>getKcForDay\<close> over
  \<open>[0, totalDays]\<close>, and \<open>totalWaterMm\<close> is \<open>averageET0\<close> times that integral. The integral
  is pinned down twice. The curve has an antiderivative on the season, and for every
  antiderivative \<open>F\<close> the difference \<open>F totalDays - F 0\<close> is \<open>averageKc * totalDays\<close>; and the
  left Riemann sums of the curve over \<open>n\<close> equal parts of the season converge to
  \<open>averageKc * totalDays\<close>.
\<close>

theorem seasonal_requirement_integral:
  assumes pos: "stagesPositive crop"
  shows "\<exists>k w. averageKc (calculateSeasonalWaterRequirement crop averageET0) = Some k \<and>
           totalWaterMm (calculateSeasonalWaterRequirement crop averageET0) = Some w \<and>
           totalDays (calculateSeasonalWaterRequirement crop averageET0) = seasonLength crop \<and>
           (\<forall>t. getKcForDay crop t = Some (kcCurve crop t)) \<and>
           (\<exists>F. kcAntiderivative crop F) \<and>
           (\<forall>F. kcAntiderivative crop F \<longrightarrow>
              k * seasonLength crop = F (seasonLength crop) - F 0 \<and>
              w = averageET0 * (F (seasonLength crop) - F 0)) \<and>
           (\<lambda>n. riemannSum (kcCurve crop) (seasonLength crop) n)
              \<longlonglongrightarrow> k * seasonLength crop \<and>
           w = averageET0 * (k * seasonLength crop)"
proof -
  let ?T = "seasonLength crop"
  let ?S = "kcInitial crop * initial (growthStages crop)
     + ((kcInitial crop + kcMid crop) / 2) * development (growthStages crop)
     + kcMid crop * midSeason (growthStages crop)
     + ((kcMid crop + kcEnd crop) / 2) * lateSeason (growthStages crop)"
  let ?r = "calculateSeasonalWaterRequirement crop averageET0"
  have T: "0 < ?T"
    using pos by (simp add: stagesPositive_def seasonLength_def)
  have k: "averageKc ?r = Some (?S / ?T)"
    using T by (simp add: calculateSeasonalWaterRequirement_def seasonLength_def js_div_def Let_def)
  have w: "totalWaterMm ?r = Some (?S / ?T * averageET0 * ?T)"
    using T by (simp add: calculateSeasonalWaterRequirement_def seasonLength_def js_div_def Let_def)
  have d: "totalDays ?r = ?T"
    by (simp add: calculateSeasonalWaterRequirement_def seasonLength_def Let_def)
  have area: "?S / ?T * ?T = ?S"
    using T by simp
  have curve: "\<forall>t. getKcForDay crop t = Some (kcCurve crop t)"
    by (simp add: getKcForDay_kcCurve)
  have ex: "\<exists>F. kcAntiderivative crop F"
    using kcPrimitive_antiderivative [OF pos] by blast
  have all: "\<forall>F. kcAntiderivative crop F \<longrightarrow>
      ?S / ?T * ?T = F ?T - F 0 \<and> ?S / ?T * averageET0 * ?T = averageET0 * (F ?T - F 0)"
    using kcAntiderivative_season [OF pos] T by simp
  have lim: "(\<lambda>n. riemannSum (kcCurve crop) ?T n) \<longlonglongrightarrow> ?S / ?T * ?T"
    using riemannSum_kcCurve_limit [OF pos]
    by (simp only: kcPrimitive_season [OF pos] area)
  have scaled: "?S / ?T * averageET0 * ?T = averageET0 * (?S / ?T * ?T)"
    by simp
  from k w d curve ex all lim scaled show ?thesis
    by blast
qed

theorem seasonal_requirement_integral_witness:
  "kcAntiderivative soybeans (kcPrimitive soybeans) \<and>
   kcPrimitive soybeans 120 - kcPrimitive soybeans 0 = 287 / 320 * 120 \<and>
   totalWaterMm (calculateSeasonalWaterRequirement soybeans 4)
     = Some (4 * (kcPrimitive soybeans 120 - kcPrimitive soybeans 0)) \<and>
   (\<lambda>n. riemannSum (kcCurve soybeans) 120 n) \<longlonglongrightarrow> 287 / 320 * 120"
proof -
  have a: "kcAntiderivative soybeans (kcPrimitive soybeans)"
    by (rule kcPrimitive_antiderivative [OF stagesPositive_soybeans])
  obtain k w where kw: "averageKc (calculateSeasonalWaterRequirement soybeans 4) = Some k"
    "totalWaterMm (calculateSeasonalWaterRequirement soybeans 4) = Some w"
    "\<forall>F. kcAntiderivative soybeans F \<longrightarrow>
       k * seasonLength soybeans = F (seasonLength soybeans) - F 0 \<and>
       w = 4 * (F (seasonLength soybeans) - F 0)"
    "(\<lambda>n. riemannSum (kcCurve soybeans) (seasonLength soybeans) n)
       \<longlonglongrightarrow> k * seasonLength soybeans"
    using seasonal_requirement_integral [OF stagesPositive_soybeans, of 4] by blast
  have "k = 287 / 320"
    using kw(1) soybeans_averageKc by simp
  with kw(2,3,4) a show ?thesis
    by (simp add: seasonLength_soybeans)
qed

end
